theory Spec2Isabelle
  imports Main "HOL-Library.Word" "HOL-Library.AList"
begin

unbundle bit_operations_syntax

section \<open>Buffers, errors and results\<close>

text \<open>
  A Node \<open>Buffer\<close> is a list of bytes. \<open>Raws.BytesIO\<close> is a cursor over a buffer: it is
  modelled by the bytes that are still unread, so a reader takes the unread bytes and
  returns the value read together with the bytes left over. A JavaScript string is
  modelled by the bytes of its UTF-8 encoding, one \<open>char\<close> per byte.
\<close>

type_synonym byte = "8 word"
type_synonym buffer = "byte list"

datatype error = DecodeError | TypeError

definition bind_res :: "error + 'a \<Rightarrow> ('a \<Rightarrow> error + 'b) \<Rightarrow> error + 'b" where
  "bind_res r f = (case r of Inl e \<Rightarrow> Inl e | Inr x \<Rightarrow> f x)"

section \<open>The primitive codec\<close>

text \<open>
  Modelled from the spec: the primitive codec \<open>Raws.Primitive\<close> and the cursor
  \<open>Raws.BytesIO\<close> of the package \<open>@tgsnake/core\<close>, an external dependency with no source
  in this repository. The spec (section 2, item 1) names its parts: fixed-width integer,
  length-prefixed string and bytes, boolean, float and typed-vector encoders and decoders
  operating on a cursor over a byte buffer; a truncated buffer fails with a
  \<open>DecodeError\<close> (section 4.1). Integers are little-endian; a byte string carries its
  length in one byte (up to 253) or in the marker 254 and three bytes, and is padded with
  zero bytes to a multiple of four; a boolean is one of two 32-bit constants; a vector
  is a 32-bit constant, a 32-bit count and the elements. A float is kept as the fixed-width
  bit pattern that is written and read, so no floating-point arithmetic takes place.
\<close>

fun le_bytes :: "nat \<Rightarrow> int \<Rightarrow> buffer" where
  "le_bytes 0 k = []"
| "le_bytes (Suc n) k = word_of_int k # le_bytes n (k div 256)"

fun from_le :: "buffer \<Rightarrow> int" where
  "from_le [] = 0"
| "from_le (b # bs) = uint b + 256 * from_le bs"

definition read_n :: "nat \<Rightarrow> buffer \<Rightarrow> error + (buffer \<times> buffer)" where
  "read_n n b = (if length b < n then Inl DecodeError else Inr (take n b, drop n b))"

definition Int_write :: "32 word \<Rightarrow> buffer" where
  "Int_write v = le_bytes 4 (uint v)"

definition Int_read :: "buffer \<Rightarrow> error + (32 word \<times> buffer)" where
  "Int_read b = bind_res (read_n 4 b) (\<lambda>(x, rest). Inr (word_of_int (from_le x), rest))"

definition Long_write :: "64 word \<Rightarrow> buffer" where
  "Long_write v = le_bytes 8 (uint v)"

definition Long_read :: "buffer \<Rightarrow> error + (64 word \<times> buffer)" where
  "Long_read b = bind_res (read_n 8 b) (\<lambda>(x, rest). Inr (word_of_int (from_le x), rest))"

definition Float_write :: "64 word \<Rightarrow> buffer" where
  "Float_write v = le_bytes 8 (uint v)"

definition Float_read :: "buffer \<Rightarrow> error + (64 word \<times> buffer)" where
  "Float_read b = bind_res (read_n 8 b) (\<lambda>(x, rest). Inr (word_of_int (from_le x), rest))"

definition BoolTrue_ID :: "32 word" where
  "BoolTrue_ID = 0x997275b5"

definition BoolFalse_ID :: "32 word" where
  "BoolFalse_ID = 0xbc799737"

definition Bool_write :: "bool \<Rightarrow> buffer" where
  "Bool_write v = Int_write (if v then BoolTrue_ID else BoolFalse_ID)"

definition Bool_read :: "buffer \<Rightarrow> error + (bool \<times> buffer)" where
  "Bool_read b = bind_res (Int_read b) (\<lambda>(x, rest). Inr (x = BoolTrue_ID, rest))"

definition padding :: "nat \<Rightarrow> nat" where
  "padding n = (4 - n mod 4) mod 4"

definition Bytes_write :: "buffer \<Rightarrow> buffer" where
  "Bytes_write v =
     (let n = length v in
      if n \<le> 253 then of_nat n # v @ replicate (padding (n + 1)) 0
      else 254 # le_bytes 3 (int n) @ v @ replicate (padding n) 0)"

definition Bytes_read :: "buffer \<Rightarrow> error + (buffer \<times> buffer)" where
  "Bytes_read b =
     bind_res (read_n 1 b) (\<lambda>(h, b1).
       let n = nat (from_le h) in
       if n \<le> 253 then
         bind_res (read_n n b1) (\<lambda>(x, b2).
         bind_res (read_n (padding (n + 1)) b2) (\<lambda>(p, b3). Inr (x, b3)))
       else
         bind_res (read_n 3 b1) (\<lambda>(l, b2).
         let m = nat (from_le l) in
         bind_res (read_n m b2) (\<lambda>(x, b3).
         bind_res (read_n (padding m) b3) (\<lambda>(p, b4). Inr (x, b4)))))"

definition byte_of_char :: "char \<Rightarrow> byte" where
  "byte_of_char c = of_nat (of_char c)"

definition char_of_byte :: "byte \<Rightarrow> char" where
  "char_of_byte w = char_of (unat w)"

definition String_write :: "string \<Rightarrow> buffer" where
  "String_write v = Bytes_write (map byte_of_char v)"

definition String_read :: "buffer \<Rightarrow> error + (string \<times> buffer)" where
  "String_read b = bind_res (Bytes_read b) (\<lambda>(x, rest). Inr (map char_of_byte x, rest))"

definition Vector_ID :: "32 word" where
  "Vector_ID = 0x1cb5c415"

definition Vector_write :: "'a list \<Rightarrow> ('a \<Rightarrow> buffer) \<Rightarrow> buffer" where
  "Vector_write v tl_write =
     Int_write Vector_ID @ Int_write (of_nat (length v)) @ concat (map tl_write v)"

section \<open>The peer record codec\<close>

text \<open>
  The peer tuple \<open>[id, accessHash, type, username?, phoneNumber?]\<close>. The two \<open>bigint\<close>
  fields are written by \<open>Long.write\<close>, which accepts 64-bit values, so they are 64-bit
  words. An optional field is \<open>None\<close> where the tuple holds \<open>undefined\<close>.
\<close>

record peer =
  peer_id :: "64 word"
  peer_accessHash :: "64 word"
  peer_type :: string
  peer_username :: "string list option"
  peer_phoneNumber :: "string option"

text \<open>JavaScript truthiness of the values the encoders test.\<close>

definition truthy_array_length :: "string list option \<Rightarrow> bool" where
  \<comment> \<open>\<open>peer[3] && peer[3].length\<close>: an array is truthy, its length 0 is not.\<close>
  "truthy_array_length v = (case v of None \<Rightarrow> False | Some us \<Rightarrow> length us \<noteq> 0)"

definition truthy_string :: "string option \<Rightarrow> bool" where
  \<comment> \<open>\<open>undefined\<close> and the empty string are falsy.\<close>
  "truthy_string v = (case v of None \<Rightarrow> False | Some s \<Rightarrow> s \<noteq> [])"

definition peer_flags :: "peer \<Rightarrow> 32 word" where
  "peer_flags p =
     (let flags = 0;
          flags = (if truthy_array_length (peer_username p) then flags OR push_bit 4 1 else flags);
          flags = (if truthy_string (peer_phoneNumber p) then flags OR push_bit 5 1 else flags)
      in flags)"

definition buildBytesFromPeer :: "peer \<Rightarrow> buffer" where
  "buildBytesFromPeer p =
     [2] @
     (Int_write (peer_flags p) @
      Long_write (peer_id p) @
      Long_write (peer_accessHash p) @
      String_write (peer_type p) @
      (if truthy_array_length (peer_username p)
       then Vector_write (the (peer_username p)) String_write else []) @
      (if truthy_string (peer_phoneNumber p)
       then String_write (the (peer_phoneNumber p)) else []))"

text \<open>
  The decoder pushes what it reads onto the array \<open>results\<close>, so its value is the list of
  the values pushed, in order. An index beyond the end of a JavaScript array reads
  \<open>undefined\<close>, which \<open>results_at\<close> gives as \<open>None\<close>.
\<close>

datatype jsval = JBigInt "64 word" | JString string | JArray "string list"

definition truthy_flag :: "32 word \<Rightarrow> nat \<Rightarrow> bool" where
  \<comment> \<open>\<open>flags & (1 << n)\<close> as a condition.\<close>
  "truthy_flag flags n = (flags AND push_bit n 1 \<noteq> 0)"

definition buildPeerFromBytes :: "buffer \<Rightarrow> error + jsval list" where
  "buildPeerFromBytes bytes =
     (if (case bytes of [] \<Rightarrow> False | b0 # _ \<Rightarrow> b0 = 2) then
        bind_res (Int_read (tl bytes)) (\<lambda>(flags, b).
        bind_res (Long_read b) (\<lambda>(v0, b). let results = [JBigInt v0] in
        bind_res (Long_read b) (\<lambda>(v1, b). let results = results @ [JBigInt v1] in
        bind_res (String_read b) (\<lambda>(v2, b). let results = results @ [JString v2] in
        bind_res (if truthy_flag flags 4
                  then bind_res (String_read b) (\<lambda>(v3, b). Inr (results @ [JString v3], b))
                  else Inr (results, b)) (\<lambda>(results, b).
        bind_res (if truthy_flag flags 5
                  then bind_res (String_read b) (\<lambda>(v4, b). Inr (results @ [JString v4], b))
                  else Inr (results, b)) (\<lambda>(results, b).
        Inr results))))))
      else
        bind_res (Int_read bytes) (\<lambda>(flags, b).
        bind_res (Long_read b) (\<lambda>(v0, b). let results = [JBigInt v0] in
        bind_res (Long_read b) (\<lambda>(v1, b). let results = results @ [JBigInt v1] in
        bind_res (String_read b) (\<lambda>(v2, b). let results = results @ [JString v2] in
        bind_res (if truthy_flag flags 4
                  then bind_res (String_read b) (\<lambda>(v3, b). Inr (results @ [JArray [v3]], b))
                  else Inr (results, b)) (\<lambda>(results, b).
        bind_res (if truthy_flag flags 5
                  then bind_res (String_read b) (\<lambda>(v4, b). Inr (results @ [JString v4], b))
                  else Inr (results, b)) (\<lambda>(results, b).
        Inr results)))))))"

definition results_at :: "jsval list \<Rightarrow> nat \<Rightarrow> jsval option" where
  "results_at rs i = (if i < length rs then Some (rs ! i) else None)"

section \<open>The secret-chat record codec\<close>

text \<open>
  The fields of \<open>Storages.SecretChat\<close> that the codec touches. The fields written by
  \<open>Int.write\<close> are 32-bit words and those written by \<open>Long.write\<close> are 64-bit words;
  \<open>created\<close> and \<open>changed\<close> are the bit patterns handed to \<open>Float.write\<close>. The four
  optional fields are \<open>None\<close> where the object holds \<open>undefined\<close>.
\<close>

record SecretChat =
  chat_id :: "32 word"
  accessHash :: "64 word"
  isAdmin :: bool
  authKey :: buffer
  mtproto :: "32 word"
  layer :: "32 word"
  inSeqNo :: "32 word"
  outSeqNo :: "32 word"
  inSeqNoX :: "32 word"
  outSeqNoX :: "32 word"
  timeRekey :: "32 word"
  created :: "64 word"
  changed :: "64 word"
  rekeyStep :: "32 word option"
  rekeyExchange :: "64 word option"
  adminId :: "64 word option"
  ttl :: "32 word option"




text \<open>
  Modelled from the spec: the constructor of \<open>Storages.SecretChat\<close>, a class of
  \<open>@tgsnake/core\<close> with no source in this repository. It stores the four fields it is
  given; the spec (section 4.2) says of the others only that an absent optional field is
  left "unset/zero-valued", so the object the constructor starts from is a parameter
  \<open>defaults\<close> of the decoder. \<open>SecretChat_unset\<close> and \<open>SecretChat_zero\<close> are the two
  readings of the spec's words.
\<close>

definition new_SecretChat ::
  "SecretChat \<Rightarrow> 32 word \<Rightarrow> 64 word \<Rightarrow> bool \<Rightarrow> buffer \<Rightarrow> SecretChat" where
  "new_SecretChat defaults i h a k =
     defaults\<lparr>chat_id := i, accessHash := h, isAdmin := a, authKey := k\<rparr>"



definition buildSecretChatFromBytes :: "SecretChat \<Rightarrow> buffer \<Rightarrow> error + SecretChat" where
  "buildSecretChatFromBytes defaults bytes =
     bind_res (Int_read bytes) (\<lambda>(flags, b).
     bind_res (Int_read b) (\<lambda>(i, b).
     bind_res (Long_read b) (\<lambda>(h, b).
     bind_res (Bool_read b) (\<lambda>(a, b).
     bind_res (Bytes_read b) (\<lambda>(k, b).
     let secretChat = new_SecretChat defaults i h a k in
     bind_res (Int_read b) (\<lambda>(v, b). let secretChat = secretChat\<lparr>mtproto := v\<rparr> in
     bind_res (Int_read b) (\<lambda>(v, b). let secretChat = secretChat\<lparr>layer := v\<rparr> in
     bind_res (Int_read b) (\<lambda>(v, b). let secretChat = secretChat\<lparr>inSeqNo := v\<rparr> in
     bind_res (Int_read b) (\<lambda>(v, b). let secretChat = secretChat\<lparr>outSeqNo := v\<rparr> in
     bind_res (Int_read b) (\<lambda>(v, b). let secretChat = secretChat\<lparr>inSeqNoX := v\<rparr> in
     bind_res (Int_read b) (\<lambda>(v, b). let secretChat = secretChat\<lparr>outSeqNoX := v\<rparr> in
     bind_res (Int_read b) (\<lambda>(v, b). let secretChat = secretChat\<lparr>timeRekey := v\<rparr> in
     bind_res (Float_read b) (\<lambda>(v, b). let secretChat = secretChat\<lparr>created := v\<rparr> in
     bind_res (Float_read b) (\<lambda>(v, b). let secretChat = secretChat\<lparr>changed := v\<rparr> in
     bind_res (if truthy_flag flags 3
               then bind_res (Int_read b) (\<lambda>(v, b). Inr (secretChat\<lparr>rekeyStep := Some v\<rparr>, b))
               else Inr (secretChat, b)) (\<lambda>(secretChat, b).
     bind_res (if truthy_flag flags 4
               then bind_res (Long_read b) (\<lambda>(v, b). Inr (secretChat\<lparr>rekeyExchange := Some v\<rparr>, b))
               else Inr (secretChat, b)) (\<lambda>(secretChat, b).
     bind_res (if truthy_flag flags 5
               then bind_res (Long_read b) (\<lambda>(v, b). Inr (secretChat\<lparr>adminId := Some v\<rparr>, b))
               else Inr (secretChat, b)) (\<lambda>(secretChat, b).
     bind_res (if truthy_flag flags 6
               then bind_res (Int_read b) (\<lambda>(v, b). Inr (secretChat\<lparr>ttl := Some v\<rparr>, b))
               else Inr (secretChat, b)) (\<lambda>(secretChat, b).
     Inr secretChat))))))))))))))))))"

section \<open>Strings of the store\<close>

text \<open>
  \<open>Buffer.toString('hex')\<close> writes two lower-case hexadecimal digits for each byte;
  \<open>Buffer.from(s, 'hex')\<close> reads pairs of digits and stops at the first pair that is not
  hexadecimal. \<open>String(n)\<close> and a template literal write an integer in decimal.
\<close>

definition hex_digit :: "nat \<Rightarrow> char" where
  "hex_digit n = ''0123456789abcdef'' ! (n mod 16)"

definition toString_hex :: "buffer \<Rightarrow> string" where
  "toString_hex bytes = concat (map (\<lambda>b. [hex_digit (unat b div 16), hex_digit (unat b mod 16)]) bytes)"

definition hex_value :: "char \<Rightarrow> nat option" where
  "hex_value c =
     (let n = (of_char c :: nat) in
      if 48 \<le> n \<and> n \<le> 57 then Some (n - 48)
      else if 97 \<le> n \<and> n \<le> 102 then Some (n - 87)
      else if 65 \<le> n \<and> n \<le> 70 then Some (n - 55)
      else None)"

fun from_hex :: "string \<Rightarrow> buffer" where
  "from_hex (a # b # rest) =
     (case (hex_value a, hex_value b) of
        (Some x, Some y) \<Rightarrow> of_nat (16 * x + y) # from_hex rest
      | _ \<Rightarrow> [])"
| "from_hex _ = []"

definition digit :: "nat \<Rightarrow> char" where
  "digit n = ''0123456789'' ! (n mod 10)"

fun digits :: "nat \<Rightarrow> string" where
  "digits n = (if n < 10 then [digit n] else digits (n div 10) @ [digit (n mod 10)])"

declare digits.simps [simp del]

definition String_int :: "int \<Rightarrow> string" where
  "String_int k = (if k < 0 then CHR ''-'' # digits (nat (- k)) else digits (nat k))"



definition toLowerCase :: "string \<Rightarrow> string" where
  \<comment> \<open>On the ASCII letters; the bytes of other characters are left as they are.\<close>
  "toLowerCase v =
     map (\<lambda>c. let n = (of_char c :: nat) in if 65 \<le> n \<and> n \<le> 90 then char_of (n + 32) else c) v"

definition startsWith :: "string \<Rightarrow> string \<Rightarrow> bool" where
  \<comment> \<open>\<open>startsWith key p\<close> is \<open>key.startsWith(p)\<close>.\<close>
  "startsWith key p = (take (length p) key = p)"


section \<open>The key-value client\<close>

text \<open>
  Modelled from the spec: the client of the package \<open>redis\<close>, an external collaborator
  with no source in this repository. The spec (sections 5 and 6) gives its operations:
  \<open>get(key)\<close>, \<open>set(key, value, ttlSeconds?)\<close>, \<open>del(key)\<close>, \<open>connect()\<close> and a streaming
  enumeration of the keys, every one of them an asynchronous call. The store is an
  association list from a key to its value and its expiry in seconds (\<open>None\<close>: no expiry),
  scanned in list order. An asynchronous call returns a promise; the model writes the
  value the promise settles to inside it, and \<open>await\<close> takes it out. A missing key reads
  as \<open>null\<close>. The enumeration is an asynchronous iterator; it yields the keys that are
  in the store when the scan starts.
\<close>

type_synonym redis = "(string \<times> (string \<times> int option)) list"

datatype reply = Promise "string option" | Bulk string | Null

definition await :: "reply \<Rightarrow> reply" where
  "await v = (case v of Promise None \<Rightarrow> Null | Promise (Some x) \<Rightarrow> Bulk x | _ \<Rightarrow> v)"

definition truthy_reply :: "reply \<Rightarrow> bool" where
  \<comment> \<open>An object (here: a promise) is truthy; \<open>null\<close> and the empty string are not.\<close>
  "truthy_reply v = (case v of Promise _ \<Rightarrow> True | Bulk x \<Rightarrow> x \<noteq> [] | Null \<Rightarrow> False)"

definition Buffer_from_hex :: "reply \<Rightarrow> error + buffer" where
  \<comment> \<open>\<open>Buffer.from(v, 'hex')\<close> throws a \<open>TypeError\<close> for a first argument that is neither
      a string nor a buffer nor array-like.\<close>
  "Buffer_from_hex v = (case v of Bulk x \<Rightarrow> Inr (from_hex x) | _ \<Rightarrow> Inl TypeError)"

definition client_get :: "redis \<Rightarrow> string \<Rightarrow> reply" where
  "client_get r key = Promise (map_option fst (map_of r key))"

definition client_set :: "redis \<Rightarrow> string \<Rightarrow> string \<Rightarrow> int option \<Rightarrow> redis" where
  "client_set r key v ex = AList.update key (v, ex) r"

definition client_del :: "redis \<Rightarrow> string \<Rightarrow> redis" where
  "client_del r key = AList.delete key r"

datatype 'a iterable = Iterable "'a list" | AsyncIterable "'a list"

definition scanIterator :: "redis \<Rightarrow> string iterable" where
  "scanIterator r = AsyncIterable (map fst r)"

definition for_of :: "'a iterable \<Rightarrow> error + 'a list" where
  \<comment> \<open>\<open>for (x of it)\<close> needs a synchronous iterator and throws a \<open>TypeError\<close> without one.\<close>
  "for_of it = (case it of Iterable xs \<Rightarrow> Inr xs | AsyncIterable _ \<Rightarrow> Inl TypeError)"

definition for_await_of :: "'a iterable \<Rightarrow> error + 'a list" where
  "for_await_of it = (case it of Iterable xs \<Rightarrow> Inr xs | AsyncIterable xs \<Rightarrow> Inr xs)"

text \<open>
  Modelled from the spec: \<open>Storages.getInputPeer\<close> of \<open>@tgsnake/core\<close>, with no source in
  this repository. The spec (section 8) says of its value only that it resolves to the id
  and the access hash; the model keeps the three arguments it is called with.
\<close>

datatype InputPeer = InputPeer "jsval option" "jsval option" "jsval option"

definition getInputPeer :: "jsval option \<Rightarrow> jsval option \<Rightarrow> jsval option \<Rightarrow> InputPeer" where
  "getInputPeer i h t = InputPeer i h t"

section \<open>The session store\<close>

text \<open>
  The fields of \<open>RedisSession\<close> and those it inherits from \<open>Storages.BaseSession\<close>. The
  source writes most of them with a leading underscore, which is written \<open>u_\<close> here:
  \<open>u_dcId\<close> is \<open>_dcId\<close>. \<open>u_redisClient\<close> is the content of the store behind the client.
  An operation takes the session and returns its result, an error where the source
  throws, and the session after it. \<open>updatePeers\<close> does not await its calls of \<open>_set\<close>;
  the writes are issued all the same and the model performs them in order.
\<close>

record session =
  sessionName :: string
  connected :: bool
  u_peerExp :: "int option"
  u_sessionExp :: "int option"
  u_sessionDelim :: string
  u_redisClient :: redis
  u_dcId :: int
  u_ip :: string
  u_port :: int
  u_testMode :: bool
  u_authKey :: buffer
  u_apiId :: int
  u_userId :: "64 word"
  u_isBot :: bool

definition u_connect :: "session \<Rightarrow> session" where
  "u_connect s = (if \<not> connected s then s\<lparr>connected := True\<rparr> else s)"

definition u_set :: "string \<Rightarrow> string \<Rightarrow> int option \<Rightarrow> session \<Rightarrow> session" where
  "u_set key v exp s =
     (if exp \<noteq> None
      then s\<lparr>u_redisClient := client_set (u_redisClient s) key v (Some (the exp))\<rparr>
      else s\<lparr>u_redisClient := client_set (u_redisClient s) key v None\<rparr>)"


definition setAuthKey :: "session \<Rightarrow> buffer \<Rightarrow> int \<Rightarrow> (error + unit) \<times> session" where
  "setAuthKey s0 authKey' dcId =
     (if dcId \<noteq> u_dcId s0 then (Inr (), s0)
      else
        let s = u_connect s0;
            s = s\<lparr>u_authKey := authKey'\<rparr>;
            sessionName' = sessionName s @ u_sessionDelim s;
            s = u_set (sessionName' @ ''authKey'') (toString_hex authKey') (u_sessionExp s) s
        in (Inr (), s))"

fun delete_loop :: "string \<Rightarrow> string list \<Rightarrow> session \<Rightarrow> session" where
  "delete_loop sessionName' [] s = s"
| "delete_loop sessionName' (key # keys) s =
     (if startsWith key sessionName'
      then delete_loop sessionName' keys (s\<lparr>u_redisClient := client_del (u_redisClient s) key\<rparr>)
      else delete_loop sessionName' keys s)"

definition delete :: "session \<Rightarrow> (error + unit) \<times> session" where
  "delete s0 =
     (let s = u_connect s0;
          sessionName' = sessionName s @ u_sessionDelim s
      in case for_await_of (scanIterator (u_redisClient s)) of
           Inl e \<Rightarrow> (Inl e, s)
         | Inr keys \<Rightarrow> (Inr (), delete_loop sessionName' keys s))"

fun updatePeers_loop :: "string \<Rightarrow> peer list \<Rightarrow> session \<Rightarrow> session" where
  "updatePeers_loop sessionName' [] s = s"
| "updatePeers_loop sessionName' (p # peers) s =
     (let bytes = buildBytesFromPeer p;
          s = u_set (sessionName' @ ''peer'' @ u_sessionDelim s @ String_int (sint (peer_id p)))
                (toString_hex bytes) (u_peerExp s) s
      in updatePeers_loop sessionName' peers s)"

definition updatePeers :: "session \<Rightarrow> peer list \<Rightarrow> (error + unit) \<times> session" where
  "updatePeers s0 peers =
     (let s = u_connect s0;
          sessionName' = sessionName s @ u_sessionDelim s
      in (Inr (), updatePeers_loop sessionName' peers s))"

definition getSecretChatById ::
  "SecretChat \<Rightarrow> session \<Rightarrow> 32 word \<Rightarrow> (error + SecretChat option) \<times> session" where
  "getSecretChatById defaults s0 i =
     (let s = u_connect s0;
          sessionName' = sessionName s @ u_sessionDelim s;
          bytes = client_get (u_redisClient s)
                    (sessionName' @ ''e2e'' @ u_sessionDelim s @ String_int (sint i))
      in if truthy_reply bytes
         then (bind_res (Buffer_from_hex bytes) (\<lambda>buf.
               bind_res (buildSecretChatFromBytes defaults buf) (\<lambda>chat. Inr (Some chat))), s)
         else (Inr None, s))"

definition getPeerById :: "session \<Rightarrow> 64 word \<Rightarrow> (error + InputPeer option) \<times> session" where
  "getPeerById s0 i =
     (let s = u_connect s0;
          sessionName' = sessionName s @ u_sessionDelim s;
          bytes = client_get (u_redisClient s)
                    (sessionName' @ ''peer'' @ u_sessionDelim s @ String_int (sint i))
      in if truthy_reply bytes
         then (bind_res (Buffer_from_hex bytes) (\<lambda>buf.
               bind_res (buildPeerFromBytes buf) (\<lambda>peer.
               Inr (Some (getInputPeer (results_at peer 0) (results_at peer 1) (results_at peer 2))))), s)
         else (Inr None, s))"

definition includes_username :: "jsval option \<Rightarrow> string \<Rightarrow> bool" where
  \<comment> \<open>\<open>Array.isArray(peer[3]) && peer[3].includes(username.toLowerCase())\<close>\<close>
  "includes_username v username =
     (case v of Some (JArray us) \<Rightarrow> toLowerCase username \<in> set us | _ \<Rightarrow> False)"

fun getPeerByUsername_loop ::
  "session \<Rightarrow> string \<Rightarrow> string list \<Rightarrow> string \<Rightarrow> error + InputPeer option" where
  "getPeerByUsername_loop s sessionName' [] username = Inr None"
| "getPeerByUsername_loop s sessionName' (key # keys) username =
     (if startsWith key (sessionName' @ ''peer'') then
        (let bytes = await (client_get (u_redisClient s) key) in
         if truthy_reply bytes then
           (case Buffer_from_hex bytes of
              Inl e \<Rightarrow> Inl e
            | Inr buf \<Rightarrow>
                (case buildPeerFromBytes buf of
                   Inl e \<Rightarrow> Inl e
                 | Inr peer \<Rightarrow>
                     if includes_username (results_at peer 3) username
                     then Inr (Some (getInputPeer (results_at peer 0) (results_at peer 1)
                                       (results_at peer 2)))
                     else getPeerByUsername_loop s sessionName' keys username))
         else getPeerByUsername_loop s sessionName' keys username)
      else getPeerByUsername_loop s sessionName' keys username)"

definition getPeerByUsername ::
  "session \<Rightarrow> string \<Rightarrow> (error + InputPeer option) \<times> session" where
  "getPeerByUsername s0 username =
     (let s = u_connect s0;
          sessionName' = sessionName s @ u_sessionDelim s
      in case for_of (scanIterator (u_redisClient s)) of
           Inl e \<Rightarrow> (Inl e, s)
         | Inr keys \<Rightarrow> (getPeerByUsername_loop s sessionName' keys username, s))"

section \<open>The legacy peer layout\<close>

text \<open>
  The encoder of the earlier version of this file, which wrote no marker byte and a single
  username: the peer tuple had a string where it now has an array of strings.
\<close>

record legacy_peer =
  legacy_id :: "64 word"
  legacy_accessHash :: "64 word"
  legacy_type :: string
  legacy_username :: "string option"
  legacy_phoneNumber :: "string option"

definition buildBytesFromPeer_legacy :: "legacy_peer \<Rightarrow> buffer" where
  "buildBytesFromPeer_legacy p =
     (let flags = (0 :: 32 word);
          flags = (if truthy_string (legacy_username p) then flags OR push_bit 4 1 else flags);
          flags = (if truthy_string (legacy_phoneNumber p) then flags OR push_bit 5 1 else flags)
      in Int_write flags @
         Long_write (legacy_id p) @
         Long_write (legacy_accessHash p) @
         String_write (legacy_type p) @
         (if truthy_string (legacy_username p)
          then String_write (the (legacy_username p)) else []) @
         (if truthy_string (legacy_phoneNumber p)
          then String_write (the (legacy_phoneNumber p)) else []))"

text \<open>
  The legacy layout in the words of the spec (section 4.1), to compare the decoder with:
  the flags word, \<open>id\<close>, \<open>accessHash\<close>, \<open>kind\<close>, then a single optional username string
  on bit 4 and an optional phone number on bit 5, read from the first byte of the buffer.
\<close>

definition legacy_layout :: "buffer \<Rightarrow> error + legacy_peer" where
  "legacy_layout bytes =
     bind_res (Int_read bytes) (\<lambda>(flags, b).
     bind_res (Long_read b) (\<lambda>(i, b).
     bind_res (Long_read b) (\<lambda>(h, b).
     bind_res (String_read b) (\<lambda>(k, b).
     bind_res (if truthy_flag flags 4
               then bind_res (String_read b) (\<lambda>(u, b). Inr (Some u, b))
               else Inr (None, b)) (\<lambda>(u, b).
     bind_res (if truthy_flag flags 5
               then bind_res (String_read b) (\<lambda>(n, b). Inr (Some n, b))
               else Inr (None, b)) (\<lambda>(n, b).
     Inr \<lparr>legacy_id = i, legacy_accessHash = h, legacy_type = k, legacy_username = u,
          legacy_phoneNumber = n\<rparr>))))))"

text \<open>
  A peer is the tuple \<open>[id, accessHash, type, username?, phoneNumber?]\<close>: the usernames
  are read at index 3 (\<open>getPeerByUsername\<close>) and the phone number at index 4
  (\<open>getPeerByPhoneNumber\<close>). \<open>peer_tuple\<close> reads these five places of a decoded array;
  \<open>tuple_of_legacy\<close> is the tuple of a legacy record, its single username wrapped as a
  one-element sequence.
\<close>

type_synonym peer_places =
  "jsval option \<times> jsval option \<times> jsval option \<times> jsval option \<times> jsval option"

definition peer_tuple :: "jsval list \<Rightarrow> peer_places" where
  "peer_tuple rs =
     (results_at rs 0, results_at rs 1, results_at rs 2, results_at rs 3, results_at rs 4)"

definition tuple_of_legacy :: "legacy_peer \<Rightarrow> peer_places" where
  "tuple_of_legacy p =
     (Some (JBigInt (legacy_id p)), Some (JBigInt (legacy_accessHash p)),
      Some (JString (legacy_type p)),
      map_option (\<lambda>u. JArray [u]) (legacy_username p),
      map_option JString (legacy_phoneNumber p))"

definition not_marked :: "buffer \<Rightarrow> bool" where
  \<comment> \<open>\<open>bytes[0] === 2\<close> is false: the buffer is empty or starts with another byte.\<close>
  "not_marked bytes = (case bytes of [] \<Rightarrow> True | b0 # _ \<Rightarrow> b0 \<noteq> 2)"

section \<open>Example values\<close>

definition stored :: "session \<Rightarrow> string \<Rightarrow> (string \<times> int option) option" where
  \<comment> \<open>What the store holds under a key: the value and its expiry.\<close>
  "stored s key = map_of (u_redisClient s) key"

definition session_s :: session where
  "session_s =
     \<lparr>sessionName = ''s'', connected = False, u_peerExp = None, u_sessionExp = Some 5,
      u_sessionDelim = '':'', u_redisClient = [], u_dcId = 5, u_ip = [], u_port = 443,
      u_testMode = False, u_authKey = [], u_apiId = 0, u_userId = 0, u_isBot = False\<rparr>"

definition session_st :: session where
  "session_st = session_s\<lparr>u_redisClient :=
     [(''s:dcId'', (''2'', None)), (''t:dcId'', (''4'', None)),
      (''s:peer:123'', (''00'', Some 60)), (''st:ip'', (''127.0.0.1'', None))]\<rparr>"

definition peer_alice_bob :: peer where
  "peer_alice_bob = \<lparr>peer_id = 123, peer_accessHash = 456, peer_type = ''user'',
     peer_username = Some [''alice'', ''Bob''], peer_phoneNumber = None\<rparr>"

definition peer_three :: peer where
  "peer_three = \<lparr>peer_id = 123, peer_accessHash = 456, peer_type = ''user'',
     peer_username = Some [''alice'', ''Bob'', ''carol''], peer_phoneNumber = None\<rparr>"

definition peer_phone :: peer where
  "peer_phone = \<lparr>peer_id = 123, peer_accessHash = 456, peer_type = ''user'',
     peer_username = None, peer_phoneNumber = Some ''15550100''\<rparr>"

definition legacy_alice :: legacy_peer where
  "legacy_alice = \<lparr>legacy_id = 123, legacy_accessHash = 456, legacy_type = ''user'',
     legacy_username = Some ''alice'', legacy_phoneNumber = Some ''15550100''\<rparr>"

definition legacy_phone :: legacy_peer where
  "legacy_phone = \<lparr>legacy_id = 123, legacy_accessHash = 456, legacy_type = ''user'',
     legacy_username = None, legacy_phoneNumber = Some ''15550100''\<rparr>"

definition session_after_update :: session where
  "session_after_update = snd (updatePeers session_s [peer_alice_bob])"



section \<open>Reading back what the primitive codec wrote\<close>

lemma bind_res_Inr [simp]: "bind_res (Inr x) f = f x"
  by (simp add: bind_res_def)

lemma bind_res_Inl [simp]: "bind_res (Inl e) f = Inl e"
  by (simp add: bind_res_def)

lemma from_le_le_bytes: "from_le (le_bytes n k) = k mod 256 ^ n"
proof (induction n arbitrary: k)
  case 0
  show ?case by simp
next
  case (Suc n)
  have "k mod 256 + 256 * (k div 256 mod 256 ^ n) = k mod (256 * 256 ^ n)"
    by (simp add: zmod_zmult2_eq)
  with Suc show ?case by (simp add: uint_word_of_int)
qed

lemma length_le_bytes [simp]: "length (le_bytes n k) = n"
  by (induction n arbitrary: k) simp_all

lemma read_n_append [simp]: "length x = n \<Longrightarrow> read_n n (x @ rest) = Inr (x, rest)"
  by (simp add: read_n_def)

lemma Int_read_write [simp]: "Int_read (Int_write v @ rest) = Inr (v, rest)"
proof -
  have "uint v mod 256 ^ 4 = uint v"
    using uint_lt2p [of v] by simp
  then show ?thesis
    by (simp add: Int_read_def Int_write_def from_le_le_bytes del: le_bytes.simps)
qed

lemma Long_read_write [simp]: "Long_read (Long_write v @ rest) = Inr (v, rest)"
proof -
  have "uint v mod 256 ^ 8 = uint v"
    using uint_lt2p [of v] by simp
  then show ?thesis
    by (simp add: Long_read_def Long_write_def from_le_le_bytes del: le_bytes.simps)
qed

lemma Float_read_write [simp]: "Float_read (Float_write v @ rest) = Inr (v, rest)"
proof -
  have "uint v mod 256 ^ 8 = uint v"
    using uint_lt2p [of v] by simp
  then show ?thesis
    by (simp add: Float_read_def Float_write_def from_le_le_bytes del: le_bytes.simps)
qed

lemma Bool_read_write [simp]: "Bool_read (Bool_write v @ rest) = Inr (v, rest)"
  by (simp add: Bool_read_def Bool_write_def BoolTrue_ID_def BoolFalse_ID_def)

lemma Bytes_read_write [simp]:
  assumes "length v < 2 ^ 24"
  shows "Bytes_read (Bytes_write v @ rest) = Inr (v, rest)"
proof (cases "length v \<le> 253")
  case True
  then have "uint (of_nat (length v) :: byte) = int (length v)"
    by (simp add: uint_word_of_int unat_of_nat uint_nat)
  with True show ?thesis
    by (simp add: Bytes_read_def Bytes_write_def read_n_def Let_def)
next
  case False
  have "int (length v) mod 256 ^ 3 = int (length v)"
    using assms by simp
  with False show ?thesis
    by (simp add: Bytes_read_def Bytes_write_def Let_def from_le_le_bytes read_n_def
        del: le_bytes.simps)
qed

lemma char_of_byte_of_char [simp]: "char_of_byte (byte_of_char c) = c"
  by (simp add: char_of_byte_def byte_of_char_def unat_of_nat)

lemma String_read_write [simp]:
  "length v < 2 ^ 24 \<Longrightarrow> String_read (String_write v @ rest) = Inr (v, rest)"
  by (simp add: String_read_def String_write_def comp_def)

lemma Int_read_write_end [simp]: "Int_read (Int_write v) = Inr (v, [])"
  using Int_read_write [of v "[]"] by simp

lemma Long_read_write_end [simp]: "Long_read (Long_write v) = Inr (v, [])"
  using Long_read_write [of v "[]"] by simp

section \<open>Flags of the secret-chat encoder\<close>






section \<open>The store after the session operations\<close>

lemma u_set_eq:
  "u_set key v exp s = s\<lparr>u_redisClient := AList.update key (v, exp) (u_redisClient s)\<rparr>"
  by (cases exp) (simp_all add: u_set_def client_set_def)


lemma setAuthKey_result:
  "setAuthKey s k dcId =
     (if dcId \<noteq> u_dcId s then (Inr (), s)
      else (Inr (), s\<lparr>connected := True, u_authKey := k,
              u_redisClient := AList.update (sessionName s @ u_sessionDelim s @ ''authKey'')
                 (toString_hex k, u_sessionExp s) (u_redisClient s)\<rparr>))"
  by (simp add: setAuthKey_def u_set_eq u_connect_def Let_def)

lemma delete_loop_eq:
  "delete_loop p keys s =
     s\<lparr>u_redisClient := filter (\<lambda>e. \<not> (fst e \<in> set keys \<and> startsWith (fst e) p)) (u_redisClient s)\<rparr>"
proof (induction keys arbitrary: s)
  case Nil
  show ?case by simp
next
  case (Cons key keys)
  show ?case
  proof (cases "startsWith key p")
    case True
    have "filter (\<lambda>e. (case e of (k', uu) \<Rightarrow> key \<noteq> k') \<and> \<not> (fst e \<in> set keys \<and> startsWith (fst e) p)) r
        = filter (\<lambda>e. \<not> (fst e \<in> set (key # keys) \<and> startsWith (fst e) p)) r" for r :: redis
      using True by (intro filter_cong [OF refl]) auto
    with True show ?thesis
      by (simp add: Cons client_del_def AList.delete_eq)
  next
    case False
    have "filter (\<lambda>e. \<not> (fst e \<in> set keys \<and> startsWith (fst e) p)) r
        = filter (\<lambda>e. \<not> (fst e \<in> set (key # keys) \<and> startsWith (fst e) p)) r" for r :: redis
      using False by (intro filter_cong [OF refl]) auto
    with False show ?thesis
      by (simp add: Cons)
  qed
qed

lemma delete_result:
  "delete s = (Inr (), s\<lparr>connected := True,
      u_redisClient := filter (\<lambda>e. \<not> startsWith (fst e) (sessionName s @ u_sessionDelim s)) (u_redisClient s)\<rparr>)"
proof -
  have "filter (\<lambda>e. \<not> (fst e \<in> set (map fst r) \<and> startsWith (fst e) p)) r
      = filter (\<lambda>e. \<not> startsWith (fst e) p) r" for r :: redis and p
    by (rule filter_cong) auto
  then show ?thesis
    by (simp add: delete_def for_await_of_def scanIterator_def delete_loop_eq u_connect_def Let_def)
qed

lemma map_of_filter_key:
  "map_of (filter (\<lambda>e. P (fst e)) r) k = (if P k then map_of r k else None)"
  by (induction r) auto

lemma startsWith_append: "startsWith key p \<longleftrightarrow> (\<exists>r. key = p @ r)"
  by (metis append_eq_conv_conj append_take_drop_id startsWith_def)

lemma other_session_prefix:
  assumes "d \<noteq> []" "set d \<inter> set a = {}" "set d \<inter> set b = {}" "a \<noteq> b"
    and "startsWith key (b @ d)"
  shows "\<not> startsWith key (a @ d)"
proof
  assume "startsWith key (a @ d)"
  then obtain r2 where k2: "key = a @ d @ r2"
    by (auto simp add: startsWith_append)
  from assms(5) obtain r1 where k1: "key = b @ d @ r1"
    by (auto simp add: startsWith_append)
  have hd_in: "hd d \<in> set d" using assms(1) by simp
  have at_a: "key ! length a = hd d"
    using assms(1) by (simp add: k2 nth_append hd_conv_nth)
  have at_b: "key ! length b = hd d"
    using assms(1) by (simp add: k1 nth_append hd_conv_nth)
  consider "length a < length b" | "length b < length a" | "length a = length b"
    by linarith
  then show False
  proof cases
    case 1
    then have "key ! length a = b ! length a" by (simp add: k1 nth_append)
    with 1 at_a have "hd d \<in> set b" by (metis nth_mem)
    with hd_in assms(3) show False by auto
  next
    case 2
    then have "key ! length b = a ! length b" by (simp add: k2 nth_append)
    with 2 at_b have "hd d \<in> set a" by (metis nth_mem)
    with hd_in assms(2) show False by auto
  next
    case 3
    with k1 k2 have "a = b" by simp
    with assms(4) show False by simp
  qed
qed

section \<open>The two branches of the peer decoder\<close>

lemma legacy_branch:
  assumes "not_marked bytes" and "legacy_layout bytes = Inr p"
  shows "buildPeerFromBytes bytes =
     Inr ([JBigInt (legacy_id p), JBigInt (legacy_accessHash p), JString (legacy_type p)] @
          (case legacy_username p of None \<Rightarrow> [] | Some u \<Rightarrow> [JArray [u]]) @
          (case legacy_phoneNumber p of None \<Rightarrow> [] | Some n \<Rightarrow> [JString n]))"
  using assms
  by (cases bytes)
     (auto simp add: not_marked_def buildPeerFromBytes_def legacy_layout_def
        bind_res_def split: sum.splits prod.splits if_splits)

lemma legacy_branch_tuple:
  assumes "not_marked bytes" and "legacy_layout bytes = Inr p"
    and "legacy_username p \<noteq> None \<or> legacy_phoneNumber p = None"
  shows "\<exists>rs. buildPeerFromBytes bytes = Inr rs \<and> peer_tuple rs = tuple_of_legacy p"
  using legacy_branch [OF assms(1,2)] assms(3)
  by (cases "legacy_username p"; cases "legacy_phoneNumber p")
     (simp_all add: peer_tuple_def tuple_of_legacy_def results_at_def)

lemma legacy_branch_phone_only:
  assumes "not_marked bytes" and "legacy_layout bytes = Inr p"
    and "legacy_username p = None" and "legacy_phoneNumber p = Some n"
  shows "\<exists>rs. buildPeerFromBytes bytes = Inr rs
     \<and> results_at rs 3 = Some (JString n) \<and> results_at rs 4 = None"
  using legacy_branch [OF assms(1,2)] assms(3,4)
  by (simp add: results_at_def)

lemma marked_no_array:
  "buildPeerFromBytes (2 # b) = Inr rs \<Longrightarrow> JArray us \<notin> set rs"
  by (auto simp add: buildPeerFromBytes_def bind_res_def Let_def
      split: sum.splits prod.splits if_splits)


section \<open>Properties of the peer encoder\<close>

text \<open>
  Claim C9. \<open>buildBytesFromPeer\<close> encodes an empty usernames array as it encodes an absent
  usernames field: for every peer, putting \<open>[]\<close> or \<open>undefined\<close> in the usernames
  position gives the same bytes, and in both cases bit 4 of the flags word is not set.
\<close>

theorem buildBytesFromPeer_empty_usernames:
  "buildBytesFromPeer (p\<lparr>peer_username := Some []\<rparr>) =
     buildBytesFromPeer (p\<lparr>peer_username := None\<rparr>)
   \<and> \<not> truthy_flag (peer_flags (p\<lparr>peer_username := Some []\<rparr>)) 4
   \<and> \<not> truthy_flag (peer_flags (p\<lparr>peer_username := None\<rparr>)) 4"
  by (simp add: buildBytesFromPeer_def peer_flags_def truthy_array_length_def truthy_flag_def)


section \<open>Properties of the secret-chat encoder\<close>


section \<open>Properties of the session store\<close>

text \<open>
  Claim C7. \<open>setAuthKey\<close> guards on the data centre: when \<open>dcId\<close> differs from the stored
  \<open>_dcId\<close> the call returns with the session, its in-memory fields and the store, exactly
  as they were; when \<open>dcId\<close> equals \<open>_dcId\<close> the key is put in \<open>_authKey\<close> and stored,
  hex-encoded, under the \<open>authKey\<close> field with the session expiry.
\<close>

theorem setAuthKey_mismatch_guard:
  "(dcId \<noteq> u_dcId s \<longrightarrow> setAuthKey s k dcId = (Inr (), s))
   \<and> (dcId = u_dcId s \<longrightarrow>
        fst (setAuthKey s k dcId) = Inr ()
        \<and> stored (snd (setAuthKey s k dcId)) (sessionName s @ u_sessionDelim s @ ''authKey'')
            = Some (toString_hex k, u_sessionExp s)
        \<and> u_authKey (snd (setAuthKey s k dcId)) = k)"
  by (simp add: setAuthKey_result stored_def update_conv')

theorem setAuthKey_mismatch_guard_witness:
  "(7 :: int) \<noteq> u_dcId session_s
   \<and> setAuthKey session_s [0xAB, 0x01] 7 = (Inr (), session_s)
   \<and> 7 = u_dcId (session_s\<lparr>u_dcId := 7\<rparr>)
   \<and> stored (snd (setAuthKey (session_s\<lparr>u_dcId := 7\<rparr>) [0xAB, 0x01] 7)) ''s:authKey''
       = Some (''ab01'', Some 5)"
  using setAuthKey_mismatch_guard [of 7 session_s "[0xAB, 0x01]"]
    setAuthKey_mismatch_guard [of 7 "session_s\<lparr>u_dcId := 7\<rparr>" "[0xAB, 0x01]"]
  by (simp add: session_s_def toString_hex_def hex_digit_def)

text \<open>
  Claim C8. \<open>delete\<close> succeeds on every store, the empty one included, and removes exactly
  the entries whose key starts with the session name followed by the delimiter: every
  other entry stays, with its value and expiry, in its place. Where the delimiter occurs
  in no session name, as the key layout requires, every key under another session's
  prefix is among those that stay.
\<close>

theorem delete_prefix_frame:
  "fst (delete s) = Inr ()
   \<and> u_redisClient (snd (delete s)) =
       filter (\<lambda>e. \<not> startsWith (fst e) (sessionName s @ u_sessionDelim s)) (u_redisClient s)
   \<and> (\<forall>key. stored (snd (delete s)) key =
        (if startsWith key (sessionName s @ u_sessionDelim s) then None else stored s key))
   \<and> (\<forall>other key. u_sessionDelim s \<noteq> [] \<and> set (u_sessionDelim s) \<inter> set (sessionName s) = {}
         \<and> set (u_sessionDelim s) \<inter> set other = {} \<and> other \<noteq> sessionName s
         \<and> startsWith key (other @ u_sessionDelim s)
         \<longrightarrow> stored (snd (delete s)) key = stored s key)
   \<and> (u_redisClient s = [] \<longrightarrow> u_redisClient (snd (delete s)) = [])"
proof -
  have a: "stored (snd (delete s)) key =
        (if startsWith key (sessionName s @ u_sessionDelim s) then None else stored s key)" for key
    using map_of_filter_key [of "\<lambda>k. \<not> startsWith k (sessionName s @ u_sessionDelim s)"
        "u_redisClient s" key]
    by (simp add: delete_result stored_def)
  have b: "stored (snd (delete s)) key = stored s key"
    if "u_sessionDelim s \<noteq> []" "set (u_sessionDelim s) \<inter> set (sessionName s) = {}"
       "set (u_sessionDelim s) \<inter> set other = {}" "other \<noteq> sessionName s"
       "startsWith key (other @ u_sessionDelim s)" for other key
    using other_session_prefix [of "u_sessionDelim s" "sessionName s" other key] that a [of key]
    by auto
  have c: "fst (delete s) = Inr ()"
    "u_redisClient (snd (delete s)) =
       filter (\<lambda>e. \<not> startsWith (fst e) (sessionName s @ u_sessionDelim s)) (u_redisClient s)"
    "u_redisClient s = [] \<longrightarrow> u_redisClient (snd (delete s)) = []"
    by (simp_all add: delete_result)
  from a b c show ?thesis by blast
qed

theorem delete_prefix_frame_witness:
  "u_redisClient (snd (delete session_st)) =
     [(''t:dcId'', (''4'', None)), (''st:ip'', (''127.0.0.1'', None))]
   \<and> startsWith ''t:dcId'' (''t'' @ u_sessionDelim session_st)
   \<and> stored (snd (delete session_st)) ''t:dcId'' = Some (''4'', None)
   \<and> stored (snd (delete session_st)) ''s:dcId'' = None
   \<and> u_redisClient session_s = []
   \<and> u_redisClient (snd (delete session_s)) = []"
  using delete_prefix_frame [of session_st] delete_prefix_frame [of session_s]
  by (simp add: session_st_def session_s_def startsWith_def stored_def)




text \<open>
  Claim C4. For every session and every id, whether the key is in the store or not,
  \<open>getPeerById\<close> and \<open>getSecretChatById\<close> end with a \<open>TypeError\<close>: the reply of the
  client is tested and handed to \<open>Buffer.from\<close> without being awaited, so it is a promise,
  which is truthy and is not a string. The claim asks for an absent result and no
  error where the key is absent.
\<close>

theorem point_lookup_rejects:
  "getPeerById s i = (Inl TypeError, u_connect s)
   \<and> getSecretChatById defaults s j = (Inl TypeError, u_connect s)"
  by (simp add: getPeerById_def getSecretChatById_def client_get_def truthy_reply_def
      Buffer_from_hex_def Let_def)

section \<open>Properties of the peer decoder\<close>

text \<open>
  Claim C6. A buffer whose first byte is not the marker 2 is read by the legacy layout
  from its first byte on, but the values read are pushed one after the other, so the
  tuple that comes out is not always the record that was read. The legacy buffer of a
  peer with a phone number and no username decodes to an array with the phone number at
  index 3, the place of the username sequence, and nothing at index 4, the place of the
  phone number. The legacy buffer of a peer with both fields decodes to the tuple of its
  record, with a username sequence of one element.
\<close>

theorem buildPeerFromBytes_legacy_phone_only:
  "not_marked (buildBytesFromPeer_legacy legacy_phone)
   \<and> legacy_layout (buildBytesFromPeer_legacy legacy_phone) = Inr legacy_phone
   \<and> buildPeerFromBytes (buildBytesFromPeer_legacy legacy_phone) =
       Inr [JBigInt 123, JBigInt 456, JString ''user'', JString ''15550100'']
   \<and> peer_tuple [JBigInt 123, JBigInt 456, JString ''user'', JString ''15550100''] =
       (Some (JBigInt 123), Some (JBigInt 456), Some (JString ''user''),
        Some (JString ''15550100''), None)
   \<and> tuple_of_legacy legacy_phone =
       (Some (JBigInt 123), Some (JBigInt 456), Some (JString ''user''),
        None, Some (JString ''15550100''))
   \<and> not_marked (buildBytesFromPeer_legacy legacy_alice)
   \<and> legacy_layout (buildBytesFromPeer_legacy legacy_alice) = Inr legacy_alice
   \<and> buildPeerFromBytes (buildBytesFromPeer_legacy legacy_alice) =
       Inr [JBigInt 123, JBigInt 456, JString ''user'', JArray [''alice''], JString ''15550100'']
   \<and> peer_tuple
        [JBigInt 123, JBigInt 456, JString ''user'', JArray [''alice''], JString ''15550100'']
       = tuple_of_legacy legacy_alice"
  by code_simp

text \<open>
  Claim C1. Decoding what the encoder wrote does not give the peer back. The encoder
  writes the usernames as a vector and the branch of the decoder for the marker 2 reads
  a string in that place. For the usernames \<open>alice\<close> and \<open>Bob\<close> the string read runs past
  the end of the buffer; for three usernames it is 21 bytes taken from the vector, not an
  array of usernames. A peer with a phone number and no username comes back with the
  phone number at index 3, where the usernames belong, and nothing at index 4.
\<close>

theorem buildPeerFromBytes_of_buildBytesFromPeer:
  "buildPeerFromBytes (buildBytesFromPeer peer_alice_bob) = Inl DecodeError
   \<and> buildPeerFromBytes (buildBytesFromPeer peer_three) =
       Inr [JBigInt 123, JBigInt 456, JString ''user'',
            JString [CHR 0xC4, CHR 0xB5, CHR 0x1C, CHR 0x03, CHR 0x00, CHR 0x00,
              CHR 0x00, CHR 0x05, CHR ''a'', CHR ''l'', CHR ''i'', CHR ''c'',
              CHR ''e'', CHR 0x00, CHR 0x00, CHR 0x03, CHR ''B'', CHR ''o'',
              CHR ''b'', CHR 0x05, CHR ''c'']]
   \<and> buildPeerFromBytes (buildBytesFromPeer peer_phone) =
       Inr [JBigInt 123, JBigInt 456, JString ''user'', JString ''15550100'']"
  by code_simp

text \<open>
  Claim C3. After \<open>updatePeers\<close> has stored the peer 123 with the usernames \<open>alice\<close> and
  \<open>Bob\<close>, \<open>getPeerByUsername\<close> for \<open>bob\<close> does not return it. The call ends with a
  \<open>TypeError\<close>, since it walks the asynchronous key iterator with a synchronous loop.
  The body of the loop, run on the stored key, does not find the peer either: decoding
  the stored bytes fails as in claim C1. And the test on the usernames lowers the name
  asked for and leaves the stored names as they are, so the stored \<open>Bob\<close> matches neither
  \<open>bob\<close> nor \<open>Bob\<close>.
\<close>

theorem getPeerByUsername_after_updatePeers:
  "u_redisClient session_after_update =
     [(''s:peer:123'', (toString_hex (buildBytesFromPeer peer_alice_bob), None))]
   \<and> getPeerByUsername session_after_update ''bob'' = (Inl TypeError, session_after_update)
   \<and> getPeerByUsername_loop session_after_update ''s:'' [''s:peer:123''] ''bob''
       = Inl DecodeError
   \<and> \<not> includes_username (Some (JArray [''alice'', ''Bob''])) ''bob''
   \<and> \<not> includes_username (Some (JArray [''alice'', ''Bob''])) ''Bob''"
  by code_simp

section \<open>Properties of the secret-chat codec\<close>




end
